theory Spec2Isabelle
  imports Complex_Main "HOL-Library.AList"
begin

section \<open>Faults\<close>

text \<open>
  The Python exceptions the modelled code raises, as values. \<open>OperandsMissing\<close> carries the
  function name and the formula text, as \<^verbatim>\<open>OperandsMissing(token.f_name, self.formula)\<close>
  does; \<open>OtherFault\<close> stands for any exception the engine does not anticipate.
\<close>

datatype exn =
    ValueError
  | TypeError
  | ZeroDivisionError
  | IndexError
  | StopIteration
  | OverflowError
  | AttributeError
  | OperandsMissing string string
  | OtherFault string

section \<open>Address codec (\<^verbatim>\<open>efc/utils.py\<close>)\<close>

definition ascii_uppercase :: string where
  "ascii_uppercase = ''ABCDEFGHIJKLMNOPQRSTUVWXYZ''"

text \<open>\<^verbatim>\<open>str.index\<close> for a one-character needle: the first position, or ValueError.\<close>

fun str_index :: "string \<Rightarrow> char \<Rightarrow> exn + nat" where
  "str_index [] c = Inl ValueError"
| "str_index (x # xs) c =
     (if x = c then Inr 0
      else (case str_index xs c of Inl e \<Rightarrow> Inl e | Inr k \<Rightarrow> Inr (Suc k)))"

text \<open>
  One term of the generator in \<^verbatim>\<open>col_str_to_index\<close>:
  \<^verbatim>\<open>(ascii_uppercase.index(s) + 1) * base ** (str_len - i)\<close>. The exponent is never
  negative, since \<open>i\<close> runs from 1 to \<open>str_len\<close>.
\<close>

definition col_term :: "nat \<Rightarrow> nat \<Rightarrow> nat \<times> char \<Rightarrow> exn + int" where
  "col_term base str_len = (\<lambda>(i, s).
     (case str_index ascii_uppercase s of
        Inl e \<Rightarrow> Inl e
      | Inr k \<Rightarrow> Inr ((int k + 1) * int base ^ (str_len - i))))"

text \<open>
  The builtin \<^verbatim>\<open>sum\<close> over a generator whose terms may raise: the terms are produced
  and added from left to right, and the first fault ends the sum.
\<close>

fun sum_gen :: "(exn + int) list \<Rightarrow> int \<Rightarrow> exn + int" where
  "sum_gen [] acc = Inr acc"
| "sum_gen (t # ts) acc = (case t of Inl e \<Rightarrow> Inl e | Inr v \<Rightarrow> sum_gen ts (acc + v))"

definition col_str_to_index :: "string \<Rightarrow> exn + int" where
  "col_str_to_index col_str =
     (let str_len = length col_str;
          base = length ascii_uppercase
      in sum_gen (map (col_term base str_len) (enumerate 1 col_str)) 0)"

text \<open>
  The body of the \<^verbatim>\<open>while i:\<close> loop of \<^verbatim>\<open>col_index_to_str\<close>: \<^verbatim>\<open>divmod\<close> by a
  positive base is floor division, which is \<open>div\<close> and \<open>mod\<close> on \<open>int\<close>. The result is
  the new \<open>i\<close> and the digit \<open>r\<close>.
\<close>

definition col_step :: "int \<Rightarrow> int \<times> int" where
  "col_step i =
     (let base = int (length ascii_uppercase);
          q = i div base;
          r = i mod base
      in if r = 0 then (q - 1, base) else (q, r))"

text \<open>
  The loop itself. For a negative \<open>i\<close> the Python loop never ends (\<open>i\<close> reaches \<open>-1\<close> and
  stays there), so the loop is a partial function: \<open>None\<close> is "does not return".
\<close>

partial_function (option) col_loop :: "int \<Rightarrow> string \<Rightarrow> string option" where
  "col_loop i chars =
     (if i = 0 then Some chars
      else (case col_step i of
              (i', r) \<Rightarrow> col_loop i' (chars @ [ascii_uppercase ! nat (r - 1)])))"

definition col_index_to_str :: "int \<Rightarrow> string option" where
  "col_index_to_str i = map_option rev (col_loop i [])"

text \<open>The value of a letter: its distance from \<open>A\<close>.\<close>

definition letter_value :: "char \<Rightarrow> nat" where
  "letter_value c = of_char c - of_char CHR ''A''"

text \<open>
  The column number as the specification words it: each letter contributes
  \<open>letter_value + 1\<close> times 26 raised to its position counted from the right, the
  rightmost position being 1.
\<close>

definition spec_column_index :: "string \<Rightarrow> int" where
  "spec_column_index s =
     sum_list (map (\<lambda>j. (int (letter_value (s ! j)) + 1) * 26 ^ (length s - j)) [0..<length s])"

text \<open>The same sum with the positions counted from the right starting at 0.\<close>

definition positional_index :: "string \<Rightarrow> int" where
  "positional_index s =
     sum_list (map (\<lambda>j. (int (letter_value (s ! j)) + 1) * 26 ^ (length s - 1 - j)) [0..<length s])"

text \<open>
  The value of a letter string in bijective base 26, by recursion on the string: the
  form the proofs about the codec work with.
\<close>

fun weighted :: "string \<Rightarrow> int" where
  "weighted [] = 0"
| "weighted (c # cs) = (int (letter_value c) + 1) * 26 ^ length cs + weighted cs"

section \<open>Cursor sequence (\<^verbatim>\<open>efc/utils.py\<close>, class \<^verbatim>\<open>Array\<close>)\<close>

record 'a array =
  arr :: "'a list"
  pos :: int

text \<open>\<^verbatim>\<open>Array(array)\<close>: the cursor starts before the first element.\<close>

definition array_init :: "'a list \<Rightarrow> 'a array" where
  "array_init xs = \<lparr>arr = xs, pos = -1\<rparr>"

definition array_append :: "'a array \<Rightarrow> 'a \<Rightarrow> 'a array" where
  "array_append a v = a\<lparr>arr := arr a @ [v]\<rparr>"

definition is_ended :: "'a array \<Rightarrow> bool" where
  "is_ended a = (pos a + 1 \<ge> int (length (arr a)))"

text \<open>Python list indexing: a negative index counts from the end, out of range raises.\<close>

definition py_get :: "'a list \<Rightarrow> int \<Rightarrow> exn + 'a" where
  "py_get xs i =
     (if 0 \<le> i \<and> i < int (length xs) then Inr (xs ! nat i)
      else if i < 0 \<and> - int (length xs) \<le> i then Inr (xs ! nat (int (length xs) + i))
      else Inl IndexError)"

text \<open>
  \<^verbatim>\<open>__next__\<close>: the fault or the element, and the cursor afterwards. The position is
  advanced before the element is read, so it stays advanced if the read raises.
\<close>

definition "next" :: "'a array \<Rightarrow> (exn + 'a) \<times> 'a array" where
  "next a =
     (if is_ended a then (Inl StopIteration, a)
      else (let a' = a\<lparr>pos := pos a + 1\<rparr> in (py_get (arr a') (pos a'), a')))"

definition reset :: "'a array \<Rightarrow> 'a array" where
  "reset a = a\<lparr>pos := -1\<rparr>"

definition step_back :: "'a array \<Rightarrow> int \<Rightarrow> 'a array" where
  "step_back a step = (if step > pos a + 1 then reset a else a\<lparr>pos := pos a - step\<rparr>)"

text \<open>A sequence of cursor operations, run from left to right.\<close>

datatype 'a cursor_op = Next | StepBack int | Reset | Append 'a

fun run_op :: "'a array \<Rightarrow> 'a cursor_op \<Rightarrow> 'a array" where
  "run_op a Next = snd (next a)"
| "run_op a (StepBack n) = step_back a n"
| "run_op a Reset = reset a"
| "run_op a (Append v) = array_append a v"

definition run_ops :: "'a array \<Rightarrow> 'a cursor_op list \<Rightarrow> 'a array" where
  "run_ops a ops = foldl run_op a ops"

section \<open>Python values\<close>

text \<open>
  The values a cell or a literal can hold and the function table works on. Floating-point
  numbers are kept abstract: \<open>'f\<close> is the type of floats, and their arithmetic is the
  parameter \<open>F\<close> of every function that computes with them, so that nothing proved here
  depends on how floats round.
\<close>

datatype 'f pyval =
    PNone
  | PBool bool
  | PInt int
  | PFloat 'f
  | PStr string
  | PList "'f pyval list"

datatype 'f number = NInt int | NFloat 'f

record 'f arith =
  f_zero :: 'f
  f_of_int :: "int \<Rightarrow> 'f option"
  f_of_str :: "string \<Rightarrow> 'f option"
  f_add :: "'f \<Rightarrow> 'f \<Rightarrow> 'f"
  f_is_zero :: "'f \<Rightarrow> bool"
  num_div :: "'f number \<Rightarrow> 'f number \<Rightarrow> exn + 'f number"

text \<open>
  \<open>f_zero\<close> is the float \<open>0.0\<close>,
  \<open>f_of_int\<close> is \<^verbatim>\<open>float(i)\<close> (\<open>None\<close>: OverflowError, the integer is too large),
  \<open>f_of_str\<close> is \<^verbatim>\<open>float(s)\<close> (\<open>None\<close>: ValueError), \<open>f_add\<close> is float addition,
  \<open>f_is_zero\<close> tells \<open>0.0\<close> and \<open>-0.0\<close> from the rest, and \<open>num_div\<close> is \<^verbatim>\<open>a / b\<close> on
  two numbers whose divisor is not zero.
\<close>

text \<open>
  An arithmetic to evaluate examples with: the floats are the real numbers and every
  operation is exact. Floating-point arithmetic agrees with it wherever the exact result
  is a float, as on the small integers of the examples.
\<close>

definition exact_arith :: "real arith" where
  "exact_arith =
     \<lparr>f_zero = 0,
      f_of_int = (\<lambda>i. Some (of_int i)),
      f_of_str = (\<lambda>s. None),
      f_add = (\<lambda>x y. x + y),
      f_is_zero = (\<lambda>x. x = 0),
      num_div = (\<lambda>a b. Inr (NFloat
        ((case a of NInt i \<Rightarrow> of_int i | NFloat x \<Rightarrow> x) /
         (case b of NInt i \<Rightarrow> of_int i | NFloat x \<Rightarrow> x))))\<rparr>"

text \<open>Truth value testing, as \<^verbatim>\<open>if a\<close> does it.\<close>

fun truthy :: "'f arith \<Rightarrow> 'f pyval \<Rightarrow> bool" where
  "truthy F PNone = False"
| "truthy F (PBool b) = b"
| "truthy F (PInt i) = (i \<noteq> 0)"
| "truthy F (PFloat x) = (\<not> f_is_zero F x)"
| "truthy F (PStr s) = (s \<noteq> [])"
| "truthy F (PList xs) = (xs \<noteq> [])"

text \<open>The number a value is in arithmetic: booleans are integers, the rest are not numbers.\<close>

fun as_num :: "'f pyval \<Rightarrow> 'f number option" where
  "as_num (PBool b) = Some (NInt (if b then 1 else 0))"
| "as_num (PInt i) = Some (NInt i)"
| "as_num (PFloat x) = Some (NFloat x)"
| "as_num _ = None"

fun of_num :: "'f number \<Rightarrow> 'f pyval" where
  "of_num (NInt i) = PInt i"
| "of_num (NFloat x) = PFloat x"

fun to_float :: "'f arith \<Rightarrow> 'f number \<Rightarrow> exn + 'f" where
  "to_float F (NFloat x) = Inr x"
| "to_float F (NInt i) = (case f_of_int F i of None \<Rightarrow> Inl OverflowError | Some x \<Rightarrow> Inr x)"

text \<open>\<^verbatim>\<open>a + b\<close> on numbers: integers add exactly, anything else adds as floats.\<close>

fun num_add :: "'f arith \<Rightarrow> 'f number \<Rightarrow> 'f number \<Rightarrow> exn + 'f number" where
  "num_add F (NInt a) (NInt b) = Inr (NInt (a + b))"
| "num_add F a b =
     (case to_float F a of
        Inl e \<Rightarrow> Inl e
      | Inr x \<Rightarrow> (case to_float F b of Inl e \<Rightarrow> Inl e | Inr y \<Rightarrow> Inr (NFloat (f_add F x y))))"

text \<open>\<^verbatim>\<open>acc + v\<close> where \<open>acc\<close> is a number: a value that is not a number is a TypeError.\<close>

definition add_value :: "'f arith \<Rightarrow> 'f number \<Rightarrow> 'f pyval \<Rightarrow> exn + 'f number" where
  "add_value F acc v = (case as_num v of None \<Rightarrow> Inl TypeError | Some b \<Rightarrow> num_add F acc b)"

fun num_is_zero :: "'f arith \<Rightarrow> 'f number \<Rightarrow> bool" where
  "num_is_zero F (NInt i) = (i = 0)"
| "num_is_zero F (NFloat x) = f_is_zero F x"

section \<open>Function table (\<^verbatim>\<open>efc/rpn/functions.py\<close>)\<close>

text \<open>\<^verbatim>\<open>divide_func(a, b)\<close> is \<^verbatim>\<open>a / b\<close>.\<close>

definition divide_func :: "'f arith \<Rightarrow> 'f pyval \<Rightarrow> 'f pyval \<Rightarrow> exn + 'f pyval" where
  "divide_func F a b =
     (case (as_num a, as_num b) of
        (Some x, Some y) \<Rightarrow>
          (if num_is_zero F y then Inl ZeroDivisionError
           else (case num_div F x y of Inl e \<Rightarrow> Inl e | Inr q \<Rightarrow> Inr (of_num q)))
      | _ \<Rightarrow> Inl TypeError)"

text \<open>
  The builtin \<^verbatim>\<open>sum\<close> of the truthy elements, \<^verbatim>\<open>sum(i for i in row if i)\<close>: it starts
  from the integer 0 and adds from left to right.
\<close>

fun sum_from :: "'f arith \<Rightarrow> 'f number \<Rightarrow> 'f pyval list \<Rightarrow> exn + 'f number" where
  "sum_from F acc [] = Inr acc"
| "sum_from F acc (i # row) =
     (if truthy F i
      then (case add_value F acc i of Inl e \<Rightarrow> Inl e | Inr acc' \<Rightarrow> sum_from F acc' row)
      else sum_from F acc row)"

text \<open>
  What \<^verbatim>\<open>for i in row\<close> iterates over: the elements of a list, the characters of a string;
  any other value of the model is not iterable.
\<close>

fun iterate :: "'f pyval \<Rightarrow> exn + 'f pyval list" where
  "iterate (PList xs) = Inr xs"
| "iterate (PStr s) = Inr (map (\<lambda>c. PStr [c]) s)"
| "iterate _ = Inl TypeError"

definition sum_truthy :: "'f arith \<Rightarrow> 'f pyval \<Rightarrow> exn + 'f number" where
  "sum_truthy F row = (case iterate row of Inl e \<Rightarrow> Inl e | Inr xs \<Rightarrow> sum_from F (NInt 0) xs)"

text \<open>\<^verbatim>\<open>result += n\<close> on the running total, which is a float.\<close>

definition add_to :: "'f arith \<Rightarrow> 'f \<Rightarrow> 'f number \<Rightarrow> exn + 'f" where
  "add_to F result n = (case to_float F n of Inl e \<Rightarrow> Inl e | Inr y \<Rightarrow> Inr (f_add F result y))"

text \<open>The loop \<^verbatim>\<open>for row in arg: result += sum(i for i in row if i)\<close>.\<close>

fun sum_rows :: "'f arith \<Rightarrow> 'f \<Rightarrow> 'f pyval list \<Rightarrow> exn + 'f" where
  "sum_rows F result [] = Inr result"
| "sum_rows F result (row # rows) =
     (case sum_truthy F row of
        Inl e \<Rightarrow> Inl e
      | Inr n \<Rightarrow> (case add_to F result n of Inl e \<Rightarrow> Inl e | Inr result' \<Rightarrow> sum_rows F result' rows))"

text \<open>
  The body of the outer loop for one truthy argument. A truthy list is not empty, so
  \<^verbatim>\<open>arg[0]\<close> exists; the empty case is written out as the IndexError it would be.
\<close>

fun sum_arg :: "'f arith \<Rightarrow> 'f \<Rightarrow> 'f pyval \<Rightarrow> exn + 'f" where
  "sum_arg F result (PList []) = Inl IndexError"
| "sum_arg F result (PList (PList r # rest)) = sum_rows F result (PList r # rest)"
| "sum_arg F result (PList xs) =
     (case sum_from F (NInt 0) xs of Inl e \<Rightarrow> Inl e | Inr n \<Rightarrow> add_to F result n)"
| "sum_arg F result arg =
     (case as_num arg of None \<Rightarrow> Inl TypeError | Some n \<Rightarrow> add_to F result n)"

fun sum_loop :: "'f arith \<Rightarrow> 'f \<Rightarrow> 'f pyval list \<Rightarrow> exn + 'f" where
  "sum_loop F result [] = Inr result"
| "sum_loop F result (a # args) =
     (if truthy F a
      then (case sum_arg F result a of Inl e \<Rightarrow> Inl e | Inr result' \<Rightarrow> sum_loop F result' args)
      else sum_loop F result args)"

text \<open>\<^verbatim>\<open>sum_func(*args)\<close>: the loop over the arguments, from the total \<open>0.0\<close>.\<close>

definition sum_func :: "'f arith \<Rightarrow> 'f pyval list \<Rightarrow> exn + 'f" where
  "sum_func F args = sum_loop F (f_zero F) args"

text \<open>
  What the specification says an argument contributes to the total: a list whose first
  element is a list, the sum of the truthy elements of each of its rows, row by row; any
  other list, the sum of its own truthy elements; any other value, itself.
\<close>

fun contributions :: "'f arith \<Rightarrow> 'f pyval \<Rightarrow> (exn + 'f number) list" where
  "contributions F (PList (PList r # rest)) = map (sum_truthy F) (PList r # rest)"
| "contributions F (PList xs) = [sum_from F (NInt 0) xs]"
| "contributions F a = [case as_num a of None \<Rightarrow> Inl TypeError | Some n \<Rightarrow> Inr n]"

text \<open>A running total to which contributions are added in order, up to the first fault.\<close>

fun add_all :: "'f arith \<Rightarrow> 'f \<Rightarrow> (exn + 'f number) list \<Rightarrow> exn + 'f" where
  "add_all F acc [] = Inr acc"
| "add_all F acc (c # cs) =
     (case c of
        Inl e \<Rightarrow> Inl e
      | Inr n \<Rightarrow> (case add_to F acc n of Inl e \<Rightarrow> Inl e | Inr t \<Rightarrow> add_all F t cs))"

section \<open>Operands (\<^verbatim>\<open>efc/rpn_builder/parser/operands.py\<close>)\<close>

text \<open>
  The data source is a collaborator of the engine, not part of it: it is taken as the
  record of the methods the modelled code calls on it, each from the worksheet name.
\<close>

record data_source =
  min_row :: "string option \<Rightarrow> int"
  max_row :: "string option \<Rightarrow> int"
  min_column :: "string option \<Rightarrow> int"
  max_column :: "string option \<Rightarrow> int"

text \<open>The subclasses of \<^verbatim>\<open>ErrorOperand\<close>, with the class attributes of each.\<close>

datatype error_class =
    UnknownError
  | ValueErrorOperand
  | WorksheetNotExist
  | NamedRangeNotExist string
  | ZeroDivisionErrorOperand
  | NotFoundErrorOperand
  | FunctionNotSupported string

fun code :: "error_class \<Rightarrow> nat" where
  "code UnknownError = 300"
| "code ValueErrorOperand = 301"
| "code WorksheetNotExist = 302"
| "code (NamedRangeNotExist name) = 303"
| "code ZeroDivisionErrorOperand = 304"
| "code NotFoundErrorOperand = 305"
| "code (FunctionNotSupported f) = 306"

fun string_value :: "error_class \<Rightarrow> string" where
  "string_value UnknownError = ''#ERROR!''"
| "string_value ValueErrorOperand = ''#VALUE!''"
| "string_value WorksheetNotExist = ''#REF!''"
| "string_value (NamedRangeNotExist name) = ''#NAME?''"
| "string_value ZeroDivisionErrorOperand = ''#DIV/0!''"
| "string_value NotFoundErrorOperand = ''#VALUE!''"
| "string_value (FunctionNotSupported f) = ''#NAME?''"

record error_operand =
  error_class :: error_class
  formula :: "string option"
  ws_name :: "string option"
  source :: "data_source option"

text \<open>An error made with no arguments, as \<^verbatim>\<open>ValueErrorOperand()\<close>.\<close>

definition new_error :: "error_class \<Rightarrow> error_operand" where
  "new_error c = \<lparr>error_class = c, formula = None, ws_name = None, source = None\<rparr>"

record operation =
  f_name :: string
  operands_count :: int

text \<open>The element type a set operand is fixed to (\<^verbatim>\<open>operands_type\<close>).\<close>

datatype operands_type = SingleCellType | SimpleType

text \<open>
  The operand classes. Every operand ends with its worksheet name and its data source,
  both of which may be \<^verbatim>\<open>None\<close>. \<open>SetOperand\<close> is \<^verbatim>\<open>CellSetOperand\<close> or
  \<^verbatim>\<open>SimpleSetOperand\<close> by its element type, and holds \<^verbatim>\<open>_items\<close>, the dictionary from
  row numbers to rows, as an association list in insertion order. \<open>RPNOperand\<close> holds the
  tokens and the formula of its postfix sequence. A token of a postfix sequence is an
  operand-like object, an operation, or anything else.
\<close>

datatype ('f, 'x) operand =
    SimpleOperand "'f pyval" "string option" "data_source option"
  | SingleCellOperand int int "string option" "data_source option"
  | CellRangeOperand "int option" "int option" "int option" "int option"
      "string option" "data_source option"
  | NamedRangeOperand string "string option" "data_source option"
  | SetOperand operands_type "(int \<times> ('f, 'x) operand list) list"
      "string option" "data_source option"
  | RPNOperand "('f, 'x) token list" string "string option" "data_source option"
  | ErrorOperand error_operand
and ('f, 'x) token =
    Operand "('f, 'x) operand"
  | Operation operation
  | Other 'x

abbreviation CellSetOperand ::
  "(int \<times> ('f, 'x) operand list) list \<Rightarrow> string option \<Rightarrow> data_source option \<Rightarrow> ('f, 'x) operand"
  where "CellSetOperand \<equiv> SetOperand SingleCellType"

abbreviation SimpleSetOperand ::
  "(int \<times> ('f, 'x) operand list) list \<Rightarrow> string option \<Rightarrow> data_source option \<Rightarrow> ('f, 'x) operand"
  where "SimpleSetOperand \<equiv> SetOperand SimpleType"

text \<open>\<^verbatim>\<open>isinstance(i, ErrorOperand)\<close> and \<^verbatim>\<open>isinstance(i, self.operands_type)\<close>.\<close>

fun is_error :: "('f, 'x) operand \<Rightarrow> bool" where
  "is_error (ErrorOperand e) = True"
| "is_error _ = False"

fun isinstance :: "('f, 'x) operand \<Rightarrow> operands_type \<Rightarrow> bool" where
  "isinstance (SingleCellOperand r c w s) SingleCellType = True"
| "isinstance (SimpleOperand v w s) SimpleType = True"
| "isinstance _ _ = False"

subsection \<open>Set operands\<close>

text \<open>
  \<^verbatim>\<open>check_type(items)\<close> takes a list or a single operand, and raises a fresh
  \<^verbatim>\<open>ValueErrorOperand\<close> when an element is not of the set's type.
\<close>

datatype ('f, 'x) items = Many "('f, 'x) operand list" | One "('f, 'x) operand"

fun check_type :: "operands_type \<Rightarrow> ('f, 'x) items \<Rightarrow> error_operand + unit" where
  "check_type t (Many xs) =
     (if list_ex (\<lambda>i. \<not> isinstance i t) xs then Inl (new_error ValueErrorOperand) else Inr ())"
| "check_type t (One x) =
     (if \<not> isinstance x t then Inl (new_error ValueErrorOperand) else Inr ())"

text \<open>
  \<^verbatim>\<open>self._items[row]\<close> on the \<^verbatim>\<open>defaultdict(list)\<close>: a missing row is made, empty.
\<close>

definition get_row :: "(int \<times> 'a list) list \<Rightarrow> int \<Rightarrow> 'a list" where
  "get_row rows row = (case map_of rows row of None \<Rightarrow> [] | Some xs \<Rightarrow> xs)"

definition add_many ::
  "operands_type \<Rightarrow> (int \<times> ('f, 'x) operand list) list \<Rightarrow> ('f, 'x) operand list \<Rightarrow> int
   \<Rightarrow> error_operand + (int \<times> ('f, 'x) operand list) list" where
  "add_many t rows xs row =
     (case check_type t (Many xs) of
        Inl err \<Rightarrow> Inl err
      | Inr _ \<Rightarrow> Inr (AList.update row (get_row rows row @ xs) rows))"

definition add_row ::
  "operands_type \<Rightarrow> (int \<times> ('f, 'x) operand list) list \<Rightarrow> ('f, 'x) operand list
   \<Rightarrow> error_operand + (int \<times> ('f, 'x) operand list) list" where
  "add_row t rows xs =
     (case check_type t (Many xs) of
        Inl err \<Rightarrow> Inl err
      | Inr _ \<Rightarrow>
          (let r = (if rows \<noteq> [] then Max (set (map fst rows)) + 1 else 1)
           in add_many t rows xs r))"

text \<open>Iterating a set: the rows by ascending row number, each from its first element.\<close>

definition set_get_iter :: "(int \<times> 'a list) list \<Rightarrow> 'a list" where
  "set_get_iter rows = concat (map (get_row rows) (sort (map fst rows)))"

subsection \<open>Cell ranges\<close>

text \<open>
  A bound of a range that is \<^verbatim>\<open>None\<close> is asked from the data source; with no data
  source that is an AttributeError.
\<close>

definition bound ::
  "int option \<Rightarrow> (data_source \<Rightarrow> string option \<Rightarrow> int) \<Rightarrow> string option
   \<Rightarrow> data_source option \<Rightarrow> exn + int" where
  "bound b ask ws src =
     (case b of
        Some v \<Rightarrow> Inr v
      | None \<Rightarrow> (case src of None \<Rightarrow> Inl AttributeError | Some d \<Rightarrow> Inr (ask d ws)))"

text \<open>
  The three loops of \<^verbatim>\<open>CellRangeOperand.get_iter\<close> on resolved bounds;
  \<^verbatim>\<open>range(a, b + 1)\<close> is \<open>[a..b]\<close>.
\<close>

definition range_cells ::
  "int \<Rightarrow> int \<Rightarrow> int \<Rightarrow> int \<Rightarrow> string option \<Rightarrow> data_source option \<Rightarrow> ('f, 'x) operand list" where
  "range_cells row1 column1 row2 column2 ws src =
     (if row1 = row2 then map (\<lambda>c. SingleCellOperand row1 c ws src) [column1..column2]
      else if column1 = column2 then map (\<lambda>r. SingleCellOperand r column1 ws src) [row1..row2]
      else concat (map (\<lambda>r. map (\<lambda>c. SingleCellOperand r c ws src) [column1..column2])
                       [row1..row2]))"

text \<open>
  \<^verbatim>\<open>CellRangeOperand.get_iter\<close>: everything the generator yields, or the fault it stops
  with before the first cell.
\<close>

definition get_iter ::
  "int option \<Rightarrow> int option \<Rightarrow> int option \<Rightarrow> int option \<Rightarrow> string option
   \<Rightarrow> data_source option \<Rightarrow> exn + ('f, 'x) operand list" where
  "get_iter row1 column1 row2 column2 ws src =
     (case bound column1 min_column ws src of Inl e \<Rightarrow> Inl e | Inr c1 \<Rightarrow>
      case bound column2 max_column ws src of Inl e \<Rightarrow> Inl e | Inr c2 \<Rightarrow>
      case bound row1 min_row ws src of Inl e \<Rightarrow> Inl e | Inr r1 \<Rightarrow>
      case bound row2 max_row ws src of Inl e \<Rightarrow> Inl e | Inr r2 \<Rightarrow>
        Inr (range_cells r1 c1 r2 c2 ws src))"

text \<open>The cells of a rectangle in row-major order, as a list of (row, column) pairs.\<close>

definition row_major :: "int \<Rightarrow> int \<Rightarrow> int \<Rightarrow> int \<Rightarrow> (int \<times> int) list" where
  "row_major row1 column1 row2 column2 =
     concat (map (\<lambda>r. map (\<lambda>c. (r, c)) [column1..column2]) [row1..row2])"

section \<open>Evaluation engine (\<^verbatim>\<open>efc/rpn_builder/rpn.py\<close>)\<close>

text \<open>
  \<^verbatim>\<open>RPN\<close> is an \<^verbatim>\<open>Array\<close> of tokens with the formula text. What \<^verbatim>\<open>calc\<close> returns is
  an operand or, from the last branch of \<^verbatim>\<open>handle_result\<close>, the list of leftover values.
\<close>

record ('f, 'x) rpn = "('f, 'x) token array" +
  rpn_formula :: string

datatype ('f, 'x) calc_result =
    Value "('f, 'x) operand"
  | Leftover "('f, 'x) operand list"

text \<open>
  The class \<^verbatim>\<open>Operation\<close> is not among the sources, so \<^verbatim>\<open>token.eval(*args)\<close> is a
  parameter \<open>ev\<close> of the engine: a function from the operation and its arguments to what
  the call does, which is to return an operand, to raise an \<^verbatim>\<open>ErrorOperand\<close>, or to
  raise another exception.
\<close>

datatype ('f, 'x) outcome =
    Returns "('f, 'x) operand"
  | RaisesOperand error_operand
  | Raises exn

text \<open>The set to build from the first leftover value, if any.\<close>

fun set_type :: "('f, 'x) operand \<Rightarrow> operands_type option" where
  "set_type (SingleCellOperand r c w s) = Some SingleCellType"
| "set_type (SimpleOperand v w s) = Some SimpleType"
| "set_type _ = None"

definition handle_result ::
  "('f, 'x) operand list \<Rightarrow> string option \<Rightarrow> data_source option \<Rightarrow> exn + ('f, 'x) calc_result" where
  "handle_result result ws src =
     (if length result = 1 then Inr (Value (hd result))
      else (case filter is_error result of
              item # _ \<Rightarrow> Inr (Value item)
            | [] \<Rightarrow>
               (case py_get result 0 of
                  Inl e \<Rightarrow> Inl e
                | Inr first \<Rightarrow>
                   (case set_type first of
                      None \<Rightarrow> Inr (Leftover result)
                    | Some t \<Rightarrow>
                       (case add_row t [] result of
                          Inl err \<Rightarrow> Inr (Value (ErrorOperand err))
                        | Inr rows \<Rightarrow> Inr (Value (SetOperand t rows ws src)))))))"

text \<open>
  \<^verbatim>\<open>[result_pop() for _ in range(n)]\<close>: the popped values, the top of the stack first,
  and the stack that is left; \<open>None\<close> is the IndexError of popping from an empty list.
  The top of the stack is the end of the list.
\<close>

fun pop_args :: "nat \<Rightarrow> 'a list \<Rightarrow> ('a list \<times> 'a list) option" where
  "pop_args 0 result = Some ([], result)"
| "pop_args (Suc n) result =
     (if result = [] then None
      else (case pop_args n (butlast result) of
              None \<Rightarrow> None
            | Some (args, rest) \<Rightarrow> Some (last result # args, rest)))"

text \<open>The \<^verbatim>\<open>try\<close> around \<^verbatim>\<open>token.eval\<close>: which exceptions become operands.\<close>

fun catch :: "('f, 'x) outcome \<Rightarrow> exn + ('f, 'x) operand" where
  "catch (Returns v) = Inr v"
| "catch (RaisesOperand err) = Inr (ErrorOperand err)"
| "catch (Raises TypeError) = Inr (ErrorOperand (new_error ValueErrorOperand))"
| "catch (Raises ValueError) = Inr (ErrorOperand (new_error ValueErrorOperand))"
| "catch (Raises ZeroDivisionError) = Inr (ErrorOperand (new_error ZeroDivisionErrorOperand))"
| "catch (Raises e) = Inl e"

text \<open>An error result gets the formula, and the worksheet name if it has none.\<close>

fun stamp :: "string \<Rightarrow> string option \<Rightarrow> ('f, 'x) operand \<Rightarrow> ('f, 'x) operand" where
  "stamp f ws (ErrorOperand v) =
     ErrorOperand (v\<lparr>formula := Some f, ws_name := (if ws_name v = None then ws else ws_name v)\<rparr>)"
| "stamp f ws v = v"

text \<open>The loop of \<^verbatim>\<open>calc\<close> over the tokens, with the result stack.\<close>

fun calc_loop ::
  "(operation \<Rightarrow> ('f, 'x) operand list \<Rightarrow> ('f, 'x) outcome) \<Rightarrow> string \<Rightarrow> string option
   \<Rightarrow> ('f, 'x) token list \<Rightarrow> ('f, 'x) operand list \<Rightarrow> exn + ('f, 'x) operand list" where
  "calc_loop ev f ws [] result = Inr result"
| "calc_loop ev f ws (Operand x # tokens) result = calc_loop ev f ws tokens (result @ [x])"
| "calc_loop ev f ws (Operation op # tokens) result =
     (case pop_args (nat (operands_count op)) result of
        None \<Rightarrow> Inl (OperandsMissing (f_name op) f)
      | Some (args, rest) \<Rightarrow>
          (case catch (ev op (rev args)) of
             Inl e \<Rightarrow> Inl e
           | Inr v \<Rightarrow> calc_loop ev f ws tokens (rest @ [stamp f ws v])))"
| "calc_loop ev f ws (Other x # tokens) result = calc_loop ev f ws tokens result"

definition calc ::
  "(operation \<Rightarrow> ('f, 'x) operand list \<Rightarrow> ('f, 'x) outcome) \<Rightarrow> ('f, 'x) rpn \<Rightarrow> string option
   \<Rightarrow> data_source option \<Rightarrow> exn + ('f, 'x) calc_result" where
  "calc ev rpn ws src =
     (case calc_loop ev (rpn_formula rpn) ws (arr rpn) [] of
        Inl e \<Rightarrow> Inl e
      | Inr result \<Rightarrow> handle_result result ws src)"

text \<open>A token that is neither operand-like nor an operation.\<close>

fun is_other :: "('f, 'x) token \<Rightarrow> bool" where
  "is_other (Other x) = True"
| "is_other _ = False"

text \<open>
  The rows of a set as the specification words the folding of leftover values, "each
  added as a new row": the \<open>i\<close>-th value alone in row \<open>i\<close>.
\<close>

definition each_a_new_row :: "'a list \<Rightarrow> (int \<times> 'a list) list" where
  "each_a_new_row xs = map (\<lambda>(i, x). (int i, [x])) (enumerate 1 xs)"

subsection \<open>Resolving arguments\<close>

text \<open>\<^verbatim>\<open>digit(v)\<close> of \<^verbatim>\<open>efc/utils.py\<close>.\<close>

fun digit :: "'f arith \<Rightarrow> 'f pyval \<Rightarrow> exn + 'f pyval" where
  "digit F (PStr s) = (case f_of_str F s of None \<Rightarrow> Inl ValueError | Some x \<Rightarrow> Inr (PFloat x))"
| "digit F (PBool b) = Inr (PInt (if b then 1 else 0))"
| "digit F PNone = Inr (PInt 0)"
| "digit F v = Inr v"

text \<open>The property \<^verbatim>\<open>Operand.digit\<close> of an operand whose value is \<open>v\<close>.\<close>

definition operand_digit :: "'f arith \<Rightarrow> 'f pyval \<Rightarrow> exn + 'f pyval" where
  "operand_digit F v = (if truthy F v then digit F v else Inr (PInt 0))"

text \<open>
  Modelled from the spec: the class \<^verbatim>\<open>Operation\<close> and its method \<^verbatim>\<open>eval\<close>
  (\<^verbatim>\<open>efc/rpn_builder/parser/operations.py\<close>) are not among the sources. The specification
  says that the engine "invoke[s] the operation's function with them as resolved
  arguments", that the functions work "over already-resolved scalar values" and stay
  "exception-propagating", and that asking an error for its value signals the error.
  \<open>eval_binary\<close> is that for a function of two numbers applied to scalar or error
  operands: each scalar is resolved with \<^verbatim>\<open>Operand.digit\<close>, an error operand raises
  itself, the function is applied and its result wrapped in a scalar; whatever is raised
  on the way is passed on. Operands that need the data source are outside this model.
\<close>

fun resolve :: "'f arith \<Rightarrow> ('f, 'x) operand \<Rightarrow> ('f, 'x) outcome + 'f pyval" where
  "resolve F (SimpleOperand v w s) =
     (case operand_digit F v of Inl e \<Rightarrow> Inl (Raises e) | Inr x \<Rightarrow> Inr x)"
| "resolve F (ErrorOperand err) = Inl (RaisesOperand err)"
| "resolve F _ = Inl (Raises (OtherFault ''not modelled''))"

definition eval_binary ::
  "'f arith \<Rightarrow> ('f pyval \<Rightarrow> 'f pyval \<Rightarrow> exn + 'f pyval) \<Rightarrow> ('f, 'x) operand list
   \<Rightarrow> ('f, 'x) outcome" where
  "eval_binary F f args =
     (case args of
        [a, b] \<Rightarrow>
          (case resolve F a of
             Inl raised \<Rightarrow> raised
           | Inr x \<Rightarrow>
               (case resolve F b of
                  Inl raised \<Rightarrow> raised
                | Inr y \<Rightarrow>
                    (case f x y of
                       Inl e \<Rightarrow> Raises e
                     | Inr v \<Rightarrow> Returns (SimpleOperand v None None))))
      | _ \<Rightarrow> Raises TypeError)"

section \<open>Properties of the address codec\<close>

lemma length_ascii_uppercase: "length ascii_uppercase = 26"
  by (simp add: ascii_uppercase_def)

lemma str_index_all:
  "list_all (\<lambda>c. str_index ascii_uppercase c = Inr (letter_value c)) ascii_uppercase"
  by code_simp

lemma str_index_upper:
  "c \<in> set ascii_uppercase \<Longrightarrow> str_index ascii_uppercase c = Inr (letter_value c)"
  using str_index_all by (simp add: list_all_iff)

lemma letter_value_less: "c \<in> set ascii_uppercase \<Longrightarrow> letter_value c < 26"
  by (auto simp: ascii_uppercase_def letter_value_def)

lemma nth_letter_value: "c \<in> set ascii_uppercase \<Longrightarrow> ascii_uppercase ! letter_value c = c"
  by (auto simp: ascii_uppercase_def letter_value_def)

lemma letter_value_all: "list_all (\<lambda>k. letter_value (ascii_uppercase ! k) = k) [0..<26]"
  by code_simp

lemma letter_value_nth: "k < 26 \<Longrightarrow> letter_value (ascii_uppercase ! k) = k"
  using letter_value_all by (simp add: list_all_iff)

lemma nth_upper: "k < 26 \<Longrightarrow> ascii_uppercase ! k \<in> set ascii_uppercase"
  using nth_mem [of k ascii_uppercase] by (simp add: length_ascii_uppercase)

lemma sum_gen_weighted:
  "set s \<subseteq> set ascii_uppercase \<Longrightarrow>
   sum_gen (map (col_term 26 (i + length s)) (enumerate (Suc i) s)) acc = Inr (acc + weighted s)"
proof (induction s arbitrary: i acc)
  case Nil
  then show ?case by simp
next
  case (Cons x xs)
  have x: "str_index ascii_uppercase x = Inr (letter_value x)"
    using Cons.prems by (simp add: str_index_upper)
  have "sum_gen (map (col_term 26 (Suc i + length xs)) (enumerate (Suc (Suc i)) xs))
          (acc + (int (letter_value x) + 1) * 26 ^ length xs)
        = Inr (acc + (int (letter_value x) + 1) * 26 ^ length xs + weighted xs)"
    using Cons.prems by (intro Cons.IH) simp
  then show ?case by (simp add: col_term_def x)
qed

lemma col_str_to_index_weighted:
  "set s \<subseteq> set ascii_uppercase \<Longrightarrow> col_str_to_index s = Inr (weighted s)"
  using sum_gen_weighted [of s 0 0]
  by (simp add: col_str_to_index_def length_ascii_uppercase)

lemma weighted_positional: "weighted s = positional_index s"
proof (induction s)
  case Nil
  then show ?case by (simp add: positional_index_def)
next
  case (Cons c cs)
  have "[0..<Suc (length cs)] = 0 # map Suc [0..<length cs]"
    by (simp add: upt_conv_Cons map_Suc_upt del: upt_Suc)
  then show ?case using Cons
    by (simp add: positional_index_def comp_def del: upt_Suc)
qed

lemma weighted_snoc: "weighted (s @ [c]) = weighted s * 26 + (int (letter_value c) + 1)"
  by (induction s) (simp_all add: algebra_simps)

lemma weighted_nonneg: "0 \<le> weighted s"
  by (induction s) simp_all

lemma col_step_digit:
  assumes "1 \<le> d" "d \<le> 26"
  shows "col_step (w * 26 + d) = (w, d)"
proof (cases "d = 26")
  case True
  have "w * 26 + 26 = (w + 1) * 26" by (simp add: algebra_simps)
  then show ?thesis using True
    by (simp add: col_step_def length_ascii_uppercase Let_def)
next
  case False
  then have d: "0 \<le> d" "d < 26" "d \<noteq> 0" using assms by auto
  have "(w * 26 + d) div 26 = w" "(w * 26 + d) mod 26 = d" using d by auto
  then show ?thesis using d
    by (simp add: col_step_def length_ascii_uppercase Let_def)
qed

lemma col_loop_weighted:
  "set s \<subseteq> set ascii_uppercase \<Longrightarrow> col_loop (weighted s) acc = Some (acc @ rev s)"
proof (induction s arbitrary: acc rule: rev_induct)
  case Nil
  then show ?case by (subst col_loop.simps) simp
next
  case (snoc c s)
  let ?d = "int (letter_value c) + 1"
  have c: "c \<in> set ascii_uppercase" using snoc.prems by simp
  have d: "1 \<le> ?d" "?d \<le> 26" using letter_value_less [OF c] by auto
  have ne: "weighted s * 26 + ?d \<noteq> 0" using weighted_nonneg [of s] by linarith
  have step: "col_step (weighted s * 26 + ?d) = (weighted s, ?d)"
    using col_step_digit [OF d] .
  have "col_loop (weighted (s @ [c])) acc = col_loop (weighted s) (acc @ [c])"
    by (subst col_loop.simps) (simp add: weighted_snoc ne step nth_letter_value [OF c])
  also have "\<dots> = Some ((acc @ [c]) @ rev s)"
    using snoc.prems by (intro snoc.IH) simp
  finally show ?case by simp
qed

lemma col_step_bounds:
  assumes "0 < n" "col_step n = (q, r)"
  shows "0 \<le> q \<and> q < n \<and> 1 \<le> r \<and> r \<le> 26 \<and> n = q * 26 + r"
proof -
  define d where "d = n div 26"
  define m where "m = n mod 26"
  have n: "n = 26 * d + m" unfolding d_def m_def by simp
  have m: "0 \<le> m" "m < 26" unfolding m_def by simp_all
  have qr: "(q, r) = (if m = 0 then (d - 1, 26) else (d, m))"
    using assms(2) unfolding d_def m_def
    by (simp add: col_step_def length_ascii_uppercase Let_def)
  show ?thesis
  proof (cases "m = 0")
    case True
    then have "q = d - 1" "r = 26" using qr by simp_all
    then show ?thesis using n m True assms(1) by linarith
  next
    case False
    then have "q = d" "r = m" using qr by simp_all
    moreover have "0 \<le> d" using assms(1) unfolding d_def by simp
    ultimately show ?thesis using n m False by linarith
  qed
qed

lemma weighted_surj:
  "0 \<le> n \<Longrightarrow> \<exists>s. set s \<subseteq> set ascii_uppercase \<and> weighted s = n"
proof (induction "nat n" arbitrary: n rule: less_induct)
  case less
  show ?case
  proof (cases "n = 0")
    case True
    then have "set [] \<subseteq> set ascii_uppercase \<and> weighted [] = n" by simp
    then show ?thesis by blast
  next
    case False
    then have pos: "0 < n" using less.prems by simp
    obtain q r where st: "col_step n = (q, r)" by (cases "col_step n")
    note b = col_step_bounds [OF pos st]
    from b have "nat q < nat n" "0 \<le> q" by auto
    then obtain s where s: "set s \<subseteq> set ascii_uppercase" "weighted s = q"
      using less.hyps by blast
    let ?c = "ascii_uppercase ! nat (r - 1)"
    have k: "nat (r - 1) < 26" using b by auto
    have "letter_value ?c = nat (r - 1)" using letter_value_nth [OF k] .
    then have "weighted (s @ [?c]) = n" using b s by (simp add: weighted_snoc)
    moreover have "set (s @ [?c]) \<subseteq> set ascii_uppercase" using s nth_upper [OF k] by simp
    ultimately show ?thesis by blast
  qed
qed

lemma weighted_eq_0: "weighted s = 0 \<longleftrightarrow> s = []"
proof
  assume "weighted s = 0"
  show "s = []"
  proof (cases s)
    case (Cons c cs)
    have "0 < (int (letter_value c) + 1) * 26 ^ length cs" by simp
    then have "0 < (int (letter_value c) + 1) * 26 ^ length cs + weighted cs"
      using weighted_nonneg [of cs] by (rule add_pos_nonneg)
    then have "0 < weighted s" using Cons by simp
    then show ?thesis using \<open>weighted s = 0\<close> by simp
  qed simp
qed simp

text \<open>
  The digit the loop of \<^verbatim>\<open>col_index_to_str\<close> looks up is always one of the 26 letters, so
  the indexing never fails; and the loop returns on no negative number.
\<close>

lemma col_step_digit_range:
  "col_step i = (q, r) \<Longrightarrow> 1 \<le> r \<and> r \<le> 26 \<and> nat (r - 1) < length ascii_uppercase"
proof -
  assume a: "col_step i = (q, r)"
  have m: "0 \<le> i mod 26" "i mod 26 < 26" by simp_all
  have "r = (if i mod 26 = 0 then 26 else i mod 26)"
    using a by (auto simp: col_step_def length_ascii_uppercase Let_def split: if_splits)
  then show ?thesis using m by (auto simp: length_ascii_uppercase)
qed

lemma col_step_negative: "i < 0 \<Longrightarrow> col_step i = (q, r) \<Longrightarrow> q < 0"
proof -
  assume i: "i < 0" and a: "col_step i = (q, r)"
  have d: "i div 26 < 0" using i by (simp add: div_neg_pos_less0)
  have "q = i div 26 - 1 \<or> q = i div 26"
    using a by (auto simp: col_step_def length_ascii_uppercase Let_def split: if_splits)
  then show ?thesis using d by auto
qed

lemma col_loop_returns_nonneg:
  assumes "col_loop i chars = Some s"
  shows "0 \<le> i"
proof (rule col_loop.raw_induct [where P = "\<lambda>i chars s. 0 \<le> i", OF _ assms])
  fix loop :: "int \<Rightarrow> string \<Rightarrow> string option" and j cs y
  assume IH: "\<And>k ds z. loop k ds = Some z \<Longrightarrow> 0 \<le> k"
    and body: "(if j = 0 then Some cs
                else case col_step j of
                       (i', r) \<Rightarrow> loop i' (cs @ [ascii_uppercase ! nat (r - 1)])) = Some y"
  show "0 \<le> j"
  proof (cases "j = 0")
    case False
    obtain q r where st: "col_step j = (q, r)" by (cases "col_step j")
    have "loop q (cs @ [ascii_uppercase ! nat (r - 1)]) = Some y"
      using body False st by simp
    then have "0 \<le> q" by (rule IH)
    then show ?thesis using col_step_negative [OF _ st] by (cases "j < 0") auto
  qed simp
qed

lemma col_index_to_str_negative: "i < 0 \<Longrightarrow> col_index_to_str i = None"
  using col_loop_returns_nonneg [of i "[]"] by (cases "col_loop i []") (auto simp: col_index_to_str_def)

text \<open>
  Claim C7, as the specification words it: \<^verbatim>\<open>col_str_to_index\<close> weighs the letter at
  position \<open>p\<close>, counted from the right starting at 1, with \<open>26 ^ p\<close>. The code does not:
  for the string \<open>A\<close> it returns 1, where that sum is 26.
\<close>

theorem col_str_to_index_spec_counterexample:
  "col_str_to_index ''A'' \<noteq> Inr (spec_column_index ''A'')"
proof -
  have "col_str_to_index ''A'' = Inr 1"
    using col_str_to_index_weighted [of "''A''"]
    by (simp add: ascii_uppercase_def letter_value_def)
  moreover have "spec_column_index ''A'' = 26"
    by (simp add: spec_column_index_def letter_value_def)
  ultimately show ?thesis by simp
qed

text \<open>
  Claim C7, amended: for every string of uppercase letters \<^verbatim>\<open>col_str_to_index\<close> returns the
  sum, over all letter positions, of \<open>letter_value + 1\<close> (1 for A, 26 for Z) times 26 raised
  to the position counted from the right starting at 0, so that the rightmost letter has
  weight 1.
\<close>

theorem col_str_to_index_positional:
  "set s \<subseteq> set ascii_uppercase \<Longrightarrow> col_str_to_index s = Inr (positional_index s)"
  using col_str_to_index_weighted [of s] by (simp add: weighted_positional)

theorem col_str_to_index_positional_witness:
  "set ''AZ'' \<subseteq> set ascii_uppercase \<and> col_str_to_index ''AZ'' = Inr 52
   \<and> positional_index ''AZ'' = 52"
proof -
  have h: "set ''AZ'' \<subseteq> set ascii_uppercase" by (simp add: ascii_uppercase_def)
  have p: "positional_index ''AZ'' = 52"
    by (simp add: positional_index_def letter_value_def upt_rec)
  show ?thesis using h p col_str_to_index_positional [OF h] by simp
qed

text \<open>
  Claim C6: for every integer \<open>n \<ge> 1\<close>, \<^verbatim>\<open>col_index_to_str\<close> returns a string that
  \<^verbatim>\<open>col_str_to_index\<close> maps back to \<open>n\<close>; and for every non-empty string \<open>s\<close> of uppercase
  letters, \<^verbatim>\<open>col_str_to_index\<close> returns a number that \<^verbatim>\<open>col_index_to_str\<close> maps back
  to \<open>s\<close>. Both conversions return: the loop of \<^verbatim>\<open>col_index_to_str\<close> ends on these inputs.
\<close>

theorem col_round_trip:
  "(1 \<le> n \<longrightarrow>
      (\<exists>s. col_index_to_str n = Some s \<and> col_str_to_index s = Inr n)) \<and>
   (t \<noteq> [] \<and> set t \<subseteq> set ascii_uppercase \<longrightarrow>
      (\<exists>m. col_str_to_index t = Inr m \<and> 1 \<le> m \<and> col_index_to_str m = Some t))"
proof (intro conjI impI)
  assume "1 \<le> n"
  then obtain s where s: "set s \<subseteq> set ascii_uppercase" "weighted s = n"
    using weighted_surj [of n] by auto
  have "col_index_to_str n = Some s"
    using col_loop_weighted [OF s(1), of "[]"] s(2) by (simp add: col_index_to_str_def)
  moreover have "col_str_to_index s = Inr n"
    using col_str_to_index_weighted [OF s(1)] s(2) by simp
  ultimately show "\<exists>s. col_index_to_str n = Some s \<and> col_str_to_index s = Inr n"
    by blast
next
  assume t: "t \<noteq> [] \<and> set t \<subseteq> set ascii_uppercase"
  then have up: "set t \<subseteq> set ascii_uppercase" by simp
  have "weighted t \<noteq> 0" using t by (simp add: weighted_eq_0)
  then have "1 \<le> weighted t" using weighted_nonneg [of t] by linarith
  moreover have "col_index_to_str (weighted t) = Some t"
    using col_loop_weighted [OF up, of "[]"] by (simp add: col_index_to_str_def)
  ultimately show "\<exists>m. col_str_to_index t = Inr m \<and> 1 \<le> m \<and> col_index_to_str m = Some t"
    using col_str_to_index_weighted [OF up] by blast
qed

theorem col_round_trip_witness:
  "(1::int) \<le> 27 \<and> (\<exists>s. col_index_to_str 27 = Some s \<and> col_str_to_index s = Inr 27) \<and>
   ''ZZ'' \<noteq> [] \<and> set ''ZZ'' \<subseteq> set ascii_uppercase \<and>
   (\<exists>m. col_str_to_index ''ZZ'' = Inr m \<and> 1 \<le> m \<and> col_index_to_str m = Some ''ZZ'')"
proof -
  have h: "''ZZ'' \<noteq> [] \<and> set ''ZZ'' \<subseteq> set ascii_uppercase"
    by (simp add: ascii_uppercase_def)
  show ?thesis using h col_round_trip [of 27 "''ZZ''"] by simp
qed

section \<open>Properties of the cursor\<close>

lemma run_op_pos: "- 1 \<le> pos a \<Longrightarrow> - 1 \<le> pos (run_op a x)"
  by (cases x) (simp_all add: next_def step_back_def reset_def array_append_def Let_def)

lemma run_ops_pos: "- 1 \<le> pos a \<Longrightarrow> - 1 \<le> pos (foldl run_op a xs)"
  by (induction xs arbitrary: a) (simp_all add: run_op_pos)

text \<open>
  Claim C9: \<^verbatim>\<open>next\<close> on an ended cursor fails with the end-of-sequence condition and leaves
  the cursor as it was; \<^verbatim>\<open>step_back(n)\<close> on a cursor at or after the before-first position
  moves it back \<open>n\<close> positions, and to the before-first position \<open>-1\<close> when \<open>n\<close> exceeds the
  number of positions behind it; and from a fresh cursor no sequence of next, step_back,
  reset (and append) operations brings the position below \<open>-1\<close>.
\<close>

theorem cursor_never_before_first:
  "(is_ended a \<longrightarrow> next a = (Inl StopIteration, a)) \<and>
   (- 1 \<le> pos a \<longrightarrow>
      pos (step_back a n) = max (- 1) (pos a - n) \<and> arr (step_back a n) = arr a \<and>
      (pos a + 1 < n \<longrightarrow> pos (step_back a n) = - 1)) \<and>
   - 1 \<le> pos (run_ops (array_init xs) ops)"
proof (intro conjI impI)
  show "- 1 \<le> pos (run_ops (array_init xs) ops)"
    unfolding run_ops_def by (rule run_ops_pos) (simp add: array_init_def)
qed (simp_all add: next_def step_back_def reset_def)

theorem cursor_never_before_first_witness:
  "is_ended (array_init [1::nat]\<lparr>pos := 0\<rparr>) \<and>
   next (array_init [1::nat]\<lparr>pos := 0\<rparr>) = (Inl StopIteration, array_init [1::nat]\<lparr>pos := 0\<rparr>) \<and>
   pos (step_back (array_init [1::nat]\<lparr>pos := 0\<rparr>) 5) = - 1 \<and>
   pos (run_ops (array_init [1::nat]) [Next, Next, StepBack 3, Reset]) = - 1"
proof -
  let ?a = "array_init [1::nat]\<lparr>pos := 0\<rparr>"
  have e: "is_ended ?a" by (simp add: is_ended_def array_init_def)
  have p: "- 1 \<le> pos ?a" by simp
  have r: "pos (run_ops (array_init [1::nat]) [Next, Next, StepBack 3, Reset]) = - 1"
    by (simp add: run_ops_def next_def is_ended_def array_init_def py_get_def
        step_back_def reset_def Let_def)
  show ?thesis
    using e p r cursor_never_before_first [of ?a 5 "[1::nat]" "[Next, Next, StepBack 3, Reset]"]
    by simp
qed

section \<open>Properties of the evaluation engine\<close>

lemma calc_loop_append:
  "calc_loop ev f ws (xs @ ys) st =
     (case calc_loop ev f ws xs st of Inl e \<Rightarrow> Inl e | Inr st' \<Rightarrow> calc_loop ev f ws ys st')"
  by (induction ev f ws xs st rule: calc_loop.induct)
     (auto split: option.splits sum.splits)

lemma length_butlast_less: "xs \<noteq> [] \<Longrightarrow> length xs - Suc 0 < n \<longleftrightarrow> length xs < Suc n"
  by (cases xs) auto

lemma pop_args_None: "pop_args n st = None \<longleftrightarrow> length st < n"
  by (induction n st rule: pop_args.induct)
     (auto split: option.splits simp: length_butlast_less)

lemma calc_loop_filter_other:
  "calc_loop ev f ws (filter (\<lambda>t. \<not> is_other t) tokens) st = calc_loop ev f ws tokens st"
  by (induction ev f ws tokens st rule: calc_loop.induct)
     (auto split: option.splits sum.splits)

text \<open>
  Claim C10: a token that is neither operand-like nor an operation is skipped by
  \<^verbatim>\<open>calc\<close>. The loop goes on from it with the stack as it was, without calling
  \<open>ev\<close> and without a fault; the loop over a sequence gives the same with and without such
  a token; and \<^verbatim>\<open>calc\<close> returns the same on a sequence as on the sequence with all such
  tokens taken out.
\<close>

theorem calc_skips_other_tokens:
  "calc_loop ev f ws (Other x # tokens) st = calc_loop ev f ws tokens st \<and>
   calc_loop ev f ws (pre @ Other x # post) st = calc_loop ev f ws (pre @ post) st \<and>
   calc ev (rpn\<lparr>arr := filter (\<lambda>t. \<not> is_other t) (arr rpn)\<rparr>) ws src = calc ev rpn ws src"
  by (simp add: calc_def calc_loop_filter_other calc_loop_append split: sum.splits)

theorem calc_skips_other_tokens_witness:
  "calc (\<lambda>op args. Raises TypeError)
     \<lparr>arr = [Other (), Operand (SimpleOperand (PInt 4) None None), Other ()],
      pos = - 1, rpn_formula = ''4''\<rparr> None None
   = (Inr (Value (SimpleOperand (PInt 4) None None)) :: exn + (unit, unit) calc_result)"
  using calc_skips_other_tokens [THEN conjunct2, THEN conjunct2,
      of "\<lambda>op args. Raises TypeError"
         "\<lparr>arr = [Other (), Operand (SimpleOperand (PInt 4 :: unit pyval) None None), Other ()],
           pos = - 1, rpn_formula = ''4''\<rparr>" None None]
  by (simp add: calc_def handle_result_def)

text \<open>
  Claim C2: when the tokens before an operation run to a stack with fewer values than the
  operation's arity, \<^verbatim>\<open>calc\<close> fails with the operands-missing condition, carrying the
  operation's function name and the formula text. The failure is the result of the call
  (\<open>Inl\<close>), not an error operand.
\<close>

theorem calc_operands_missing:
  assumes "arr rpn = pre @ Operation op # post"
    and "calc_loop ev (rpn_formula rpn) ws pre [] = Inr st"
    and "int (length st) < operands_count op"
  shows "calc ev rpn ws src = Inl (OperandsMissing (f_name op) (rpn_formula rpn))"
proof -
  have "length st < nat (operands_count op)" using assms(3) by linarith
  then have "pop_args (nat (operands_count op)) st = None" by (simp add: pop_args_None)
  then show ?thesis using assms(1,2) by (simp add: calc_def calc_loop_append)
qed

theorem calc_operands_missing_witness:
  "calc (\<lambda>op args. Raises TypeError)
     \<lparr>arr = [Operand (SimpleOperand (PInt 4) None None),
             Operation \<lparr>f_name = ''+'', operands_count = 2\<rparr>],
      pos = - 1, rpn_formula = ''4+''\<rparr> None None
   = (Inl (OperandsMissing ''+'' ''4+'') :: exn + (unit, unit) calc_result)"
  using calc_operands_missing [of
      "\<lparr>arr = [Operand (SimpleOperand (PInt 4 :: unit pyval) None None),
              Operation \<lparr>f_name = ''+'', operands_count = 2\<rparr>],
        pos = - 1, rpn_formula = ''4+''\<rparr> :: (unit, unit) rpn"
      "[Operand (SimpleOperand (PInt 4) None None)]"
      "\<lparr>f_name = ''+'', operands_count = 2\<rparr>" "[]"
      "\<lambda>op args. Raises TypeError" None
      "[SimpleOperand (PInt 4) None None]" None]
  by simp

text \<open>
  Claim C3: when the final stack holds two or more values and one of them is an error,
  \<^verbatim>\<open>handle_result\<close> returns the first error in stack order, whatever the other values
  are.
\<close>

theorem handle_result_first_error:
  assumes "2 \<le> length result"
    and "result = pre @ ErrorOperand e # post"
    and "\<forall>x\<in>set pre. \<not> is_error x"
  shows "handle_result result ws src = Inr (Value (ErrorOperand e))"
proof -
  have "filter is_error pre = []" using assms(3) by (simp add: filter_empty_conv)
  then have "filter is_error result = ErrorOperand e # filter is_error post"
    using assms(2) by simp
  then show ?thesis using assms(1) by (simp add: handle_result_def)
qed

theorem handle_result_first_error_witness:
  "handle_result
     [SimpleOperand (PInt 1) None None,
      ErrorOperand (new_error ZeroDivisionErrorOperand),
      ErrorOperand (new_error ValueErrorOperand)] None None
   = (Inr (Value (ErrorOperand (new_error ZeroDivisionErrorOperand)))
        :: exn + (unit, unit) calc_result)"
proof -
  let ?one = "SimpleOperand (PInt 1) None None :: (unit, unit) operand"
  let ?e1 = "new_error ZeroDivisionErrorOperand"
  let ?e2 = "ErrorOperand (new_error ValueErrorOperand) :: (unit, unit) operand"
  have 1: "2 \<le> length [?one, ErrorOperand ?e1, ?e2]" by simp
  have 2: "[?one, ErrorOperand ?e1, ?e2] = [?one] @ ErrorOperand ?e1 # [?e2]" by simp
  have 3: "\<forall>x\<in>set [?one]. \<not> is_error x" by simp
  show ?thesis by (rule handle_result_first_error [OF 1 2 3])
qed

lemma pop_args_2: "pop_args 2 [a, b] = Some ([b, a], [])"
  by (simp add: numeral_2_eq_2)

lemma divide_func_zero:
  "as_num a = Some x \<Longrightarrow> as_num b = Some y \<Longrightarrow> num_is_zero F y
   \<Longrightarrow> divide_func F a b = Inl ZeroDivisionError"
  by (simp add: divide_func_def)

lemma eval_binary_4_0:
  "eval_binary F (divide_func F)
     [SimpleOperand (PInt 4) w1 s1, SimpleOperand (PInt 0) w2 s2] = Raises ZeroDivisionError"
  by (simp add: eval_binary_def operand_digit_def divide_func_def)

text \<open>
  Claim C1: when the tokens before an operation leave enough values on the stack and the
  operation's function raises a division-by-zero fault, the value \<^verbatim>\<open>calc\<close> pushes for the
  operation is the Division-by-Zero error operand, stamped with the formula and the
  worksheet name, whose display is \<open>#DIV/0!\<close>; when it raises a type or value fault, the
  value pushed is the Value-Error operand. In particular the postfix sequence 4 0 /,
  evaluated with the division of the function table, returns the Division-by-Zero error
  operand as the result of \<^verbatim>\<open>calc\<close>, not a fault.
\<close>

theorem calc_fault_becomes_error_operand:
  assumes "calc_loop ev f ws pre [] = Inr st"
    and "pop_args (nat (operands_count op)) st = Some (args, rest)"
  shows "(ev op (rev args) = Raises ZeroDivisionError \<longrightarrow>
            calc_loop ev f ws (pre @ [Operation op]) [] =
              Inr (rest @ [ErrorOperand \<lparr>error_class = ZeroDivisionErrorOperand,
                             formula = Some f, ws_name = ws, source = None\<rparr>])) \<and>
         (ev op (rev args) = Raises TypeError \<or> ev op (rev args) = Raises ValueError \<longrightarrow>
            calc_loop ev f ws (pre @ [Operation op]) [] =
              Inr (rest @ [ErrorOperand \<lparr>error_class = ValueErrorOperand,
                             formula = Some f, ws_name = ws, source = None\<rparr>])) \<and>
         string_value ZeroDivisionErrorOperand = ''#DIV/0!'' \<and>
         calc (\<lambda>op. eval_binary F (divide_func F))
           \<lparr>arr = [Operand (SimpleOperand (PInt 4) w1 s1), Operand (SimpleOperand (PInt 0) w2 s2),
                   Operation \<lparr>f_name = ''/'', operands_count = 2\<rparr>],
            pos = p, rpn_formula = f\<rparr> ws src =
           Inr (Value (ErrorOperand \<lparr>error_class = ZeroDivisionErrorOperand,
                         formula = Some f, ws_name = ws, source = None\<rparr>))"
proof (intro conjI impI)
  assume "ev op (rev args) = Raises ZeroDivisionError"
  then show "calc_loop ev f ws (pre @ [Operation op]) [] =
      Inr (rest @ [ErrorOperand \<lparr>error_class = ZeroDivisionErrorOperand,
                     formula = Some f, ws_name = ws, source = None\<rparr>])"
    using assms by (simp add: calc_loop_append new_error_def)
next
  assume "ev op (rev args) = Raises TypeError \<or> ev op (rev args) = Raises ValueError"
  then show "calc_loop ev f ws (pre @ [Operation op]) [] =
      Inr (rest @ [ErrorOperand \<lparr>error_class = ValueErrorOperand,
                     formula = Some f, ws_name = ws, source = None\<rparr>])"
    using assms by (auto simp: calc_loop_append new_error_def)
next
  show "string_value ZeroDivisionErrorOperand = ''#DIV/0!''" by simp
next
  show "calc (\<lambda>op. eval_binary F (divide_func F))
           \<lparr>arr = [Operand (SimpleOperand (PInt 4) w1 s1), Operand (SimpleOperand (PInt 0) w2 s2),
                   Operation \<lparr>f_name = ''/'', operands_count = 2\<rparr>],
            pos = p, rpn_formula = f\<rparr> ws src =
           Inr (Value (ErrorOperand \<lparr>error_class = ZeroDivisionErrorOperand,
                         formula = Some f, ws_name = ws, source = None\<rparr>))"
    by (simp add: calc_def pop_args_2 eval_binary_4_0 new_error_def handle_result_def)
qed

theorem calc_fault_becomes_error_operand_witness:
  "calc_loop (\<lambda>op. eval_binary exact_arith (divide_func exact_arith)) ''4/0'' (Some ''Sheet1'')
     [Operand (SimpleOperand (PInt 4) None None), Operand (SimpleOperand (PInt 0) None None),
      Operation \<lparr>f_name = ''/'', operands_count = 2\<rparr>] []
   = Inr [ErrorOperand \<lparr>error_class = ZeroDivisionErrorOperand, formula = Some ''4/0'',
            ws_name = Some ''Sheet1'', source = None\<rparr> :: (real, unit) operand]"
proof -
  let ?ev = "\<lambda>op::operation. eval_binary exact_arith (divide_func exact_arith)
               :: (real, unit) operand list \<Rightarrow> (real, unit) outcome"
  let ?four = "SimpleOperand (PInt 4) None None :: (real, unit) operand"
  let ?zero = "SimpleOperand (PInt 0) None None :: (real, unit) operand"
  let ?op = "\<lparr>f_name = ''/'', operands_count = 2\<rparr>"
  have 1: "calc_loop ?ev ''4/0'' (Some ''Sheet1'') [Operand ?four, Operand ?zero] []
             = Inr [?four, ?zero]" by simp
  have 2: "pop_args (nat (operands_count ?op)) [?four, ?zero] = Some ([?zero, ?four], [])"
    by (simp add: numeral_2_eq_2)
  have 3: "?ev ?op (rev [?zero, ?four]) = Raises ZeroDivisionError"
    by (simp add: eval_binary_4_0)
  show ?thesis
    using calc_fault_becomes_error_operand [OF 1 2, THEN conjunct1] 3
    by (simp del: calc_loop.simps)
qed

section \<open>Properties of the folding of leftover values\<close>

lemma check_type_Many:
  "check_type t (Many xs) =
     (if \<forall>x\<in>set xs. isinstance x t then Inr () else Inl (new_error ValueErrorOperand))"
  by (auto simp: list_ex_iff)

lemma add_row_empty:
  "add_row t [] xs =
     (if \<forall>x\<in>set xs. isinstance x t then Inr [(1, xs)] else Inl (new_error ValueErrorOperand))"
  by (simp add: add_row_def add_many_def check_type_Many get_row_def del: check_type.simps)

lemma py_get_0: "xs \<noteq> [] \<Longrightarrow> py_get xs 0 = Inr (hd xs)"
  by (cases xs) (simp_all add: py_get_def)

lemma set_type_isinstance: "set_type x = Some t \<Longrightarrow> isinstance x t"
  by (cases x) auto

text \<open>
  Claim C4, amended: when the final stack holds two or more values, none of them an error,
  and the first is a SingleCell (respectively a Scalar), \<^verbatim>\<open>handle_result\<close> returns a
  CellSet (respectively a ScalarSet) that holds all the values together in one new row,
  row 1, in stack order, if every value is of the set's type; otherwise it returns, and
  does not raise, a fresh Value-Error operand.
\<close>

theorem handle_result_builds_one_row:
  assumes "2 \<le> length result"
    and "\<forall>x\<in>set result. \<not> is_error x"
    and "set_type (hd result) = Some t"
  shows "handle_result result ws src =
           (if \<forall>x\<in>set result. isinstance x t
            then Inr (Value (SetOperand t [(1, result)] ws src))
            else Inr (Value (ErrorOperand (new_error ValueErrorOperand)))) \<and>
         set_get_iter [(1, result)] = result \<and>
         (t = SingleCellType \<longleftrightarrow> (\<exists>r c w s. hd result = SingleCellOperand r c w s)) \<and>
         (t = SimpleType \<longleftrightarrow> (\<exists>v w s. hd result = SimpleOperand v w s))"
proof -
  have ne: "result \<noteq> []" "length result \<noteq> 1" using assms(1) by auto
  have noerr: "filter is_error result = []" using assms(2) by (simp add: filter_empty_conv)
  have 1: "handle_result result ws src =
           (if \<forall>x\<in>set result. isinstance x t
            then Inr (Value (SetOperand t [(1, result)] ws src))
            else Inr (Value (ErrorOperand (new_error ValueErrorOperand))))"
    using ne noerr assms(3) by (simp add: handle_result_def py_get_0 add_row_empty)
  have 2: "set_get_iter [(1, result)] = result"
    by (simp add: set_get_iter_def get_row_def)
  have 3: "t = SingleCellType \<longleftrightarrow> (\<exists>r c w s. hd result = SingleCellOperand r c w s)"
    using assms(3) by (cases "hd result") auto
  have 4: "t = SimpleType \<longleftrightarrow> (\<exists>v w s. hd result = SimpleOperand v w s)"
    using assms(3) by (cases "hd result") auto
  show ?thesis using 1 2 3 4 by blast
qed

text \<open>
  Claim C4, as the specification words it: the set is built "with each value added as a
  new row". For two cells the code returns a set with the one row \<open>(1, [a, b])\<close>, not the
  rows \<open>(1, [a])\<close> and \<open>(2, [b])\<close>.
\<close>

theorem handle_result_new_row_each_counterexample:
  "handle_result [SingleCellOperand 1 1 None None, SingleCellOperand 1 2 None None] None None
   \<noteq> Inr (Value (CellSetOperand
         (each_a_new_row [SingleCellOperand 1 1 None None, SingleCellOperand 1 2 None None])
         None None) :: (unit, unit) calc_result)"
  by (simp add: handle_result_def py_get_def add_row_def add_many_def get_row_def
      each_a_new_row_def)

theorem handle_result_builds_one_row_witness:
  "handle_result [SingleCellOperand 1 1 None None, SingleCellOperand 1 2 None None] None None
     = Inr (Value (CellSetOperand
         [(1, [SingleCellOperand 1 1 None None, SingleCellOperand 1 2 None None])]
         None None) :: (unit, unit) calc_result) \<and>
   handle_result [SingleCellOperand 1 1 None None, SimpleOperand (PInt 2) None None] None None
     = Inr (Value (ErrorOperand (new_error ValueErrorOperand)) :: (unit, unit) calc_result)"
proof -
  let ?a = "SingleCellOperand 1 1 None None :: (unit, unit) operand"
  let ?b = "SingleCellOperand 1 2 None None :: (unit, unit) operand"
  let ?c = "SimpleOperand (PInt 2) None None :: (unit, unit) operand"
  have "handle_result [?a, ?b] None None = Inr (Value (CellSetOperand [(1, [?a, ?b])] None None))"
    using handle_result_builds_one_row [of "[?a, ?b]" SingleCellType None None] by simp
  moreover have "handle_result [?a, ?c] None None
      = Inr (Value (ErrorOperand (new_error ValueErrorOperand)))"
    using handle_result_builds_one_row [of "[?a, ?c]" SingleCellType None None] by simp
  ultimately show ?thesis by simp
qed

section \<open>Properties of cell ranges\<close>

lemma range_cells_row_major:
  "range_cells r1 c1 r2 c2 ws src =
     map (\<lambda>(r, c). SingleCellOperand r c ws src) (row_major r1 c1 r2 c2)"
proof -
  have single: "\<And>f. concat (map f [r1..r1]) = f r1" by simp
  have col: "map (\<lambda>r. SingleCellOperand r c1 ws src) [r1..r2]
      = map (\<lambda>(r, c). SingleCellOperand r c ws src) (concat (map (\<lambda>r. map (Pair r) [c1..c1]) [r1..r2]))"
    by (simp add: map_concat comp_def)
  show ?thesis
    by (auto simp: range_cells_def row_major_def map_concat comp_def col)
qed

text \<open>
  Claim C8: with a data source \<open>d\<close>, and the bounds \<open>r1\<close>, \<open>c1\<close>, \<open>r2\<close>, \<open>c2\<close> of the range after
  each \<^verbatim>\<open>None\<close> is replaced by the minimum or maximum row or column of \<open>d\<close>, iterating the
  range yields single cells: one per column from \<open>c1\<close> to \<open>c2\<close> when \<open>r1 = r2\<close>; one per row
  from \<open>r1\<close> to \<open>r2\<close> when the rows differ and \<open>c1 = c2\<close>; and in every case the cells of
  the rectangle in row-major order.
\<close>

theorem cell_range_iteration:
  assumes "c1 = (case column1 of None \<Rightarrow> min_column d ws | Some v \<Rightarrow> v)"
    and "c2 = (case column2 of None \<Rightarrow> max_column d ws | Some v \<Rightarrow> v)"
    and "r1 = (case row1 of None \<Rightarrow> min_row d ws | Some v \<Rightarrow> v)"
    and "r2 = (case row2 of None \<Rightarrow> max_row d ws | Some v \<Rightarrow> v)"
  shows "(r1 = r2 \<longrightarrow>
            get_iter row1 column1 row2 column2 ws (Some d) =
              (Inr (map (\<lambda>c. SingleCellOperand r1 c ws (Some d)) [c1..c2])
                 :: exn + ('f, 'x) operand list)) \<and>
         (r1 \<noteq> r2 \<and> c1 = c2 \<longrightarrow>
            get_iter row1 column1 row2 column2 ws (Some d) =
              (Inr (map (\<lambda>r. SingleCellOperand r c1 ws (Some d)) [r1..r2])
                 :: exn + ('f, 'x) operand list)) \<and>
         get_iter row1 column1 row2 column2 ws (Some d) =
           (Inr (map (\<lambda>(r, c). SingleCellOperand r c ws (Some d)) (row_major r1 c1 r2 c2))
              :: exn + ('f, 'x) operand list)"
proof -
  have "get_iter row1 column1 row2 column2 ws (Some d)
          = (Inr (range_cells r1 c1 r2 c2 ws (Some d)) :: exn + ('f, 'x) operand list)"
    using assms by (simp add: get_iter_def bound_def split: option.splits)
  then show ?thesis
    by (auto simp: range_cells_row_major [symmetric] range_cells_def)
qed

theorem cell_range_iteration_witness:
  "get_iter None (Some 5) None (Some 6) None
     (Some \<lparr>min_row = \<lambda>w. 2, max_row = \<lambda>w. 3, min_column = \<lambda>w. 1, max_column = \<lambda>w. 9\<rparr>)
   = (Inr (map (\<lambda>(r, c). SingleCellOperand r c None
        (Some \<lparr>min_row = \<lambda>w. 2, max_row = \<lambda>w. 3, min_column = \<lambda>w. 1, max_column = \<lambda>w. 9\<rparr>))
        [(2, 5), (2, 6), (3, 5), (3, 6)]) :: exn + (unit, unit) operand list)"
proof -
  let ?d = "\<lparr>min_row = \<lambda>w. 2, max_row = \<lambda>w. 3, min_column = \<lambda>w. 1, max_column = \<lambda>w. 9\<rparr>"
  have rm: "row_major 2 5 3 6 = [(2, 5), (2, 6), (3, 5), (3, 6)]"
    by (simp add: row_major_def upto_rec1)
  show ?thesis
    using cell_range_iteration [where ?c1.0 = 5 and ?column1.0 = "Some 5" and d = ?d
        and ws = None and ?c2.0 = 6 and ?column2.0 = "Some 6" and ?r1.0 = 2 and ?row1.0 = None
        and ?r2.0 = 3 and ?row2.0 = None, THEN conjunct2, THEN conjunct2]
    by (simp add: rm)
qed

section \<open>Properties of the function table\<close>

lemma add_all_append:
  "add_all F t (xs @ ys) =
     (case add_all F t xs of Inl e \<Rightarrow> Inl e | Inr t' \<Rightarrow> add_all F t' ys)"
  by (induction xs arbitrary: t) (auto split: sum.splits)

lemma sum_rows_add_all: "sum_rows F t rows = add_all F t (map (sum_truthy F) rows)"
  by (induction rows arbitrary: t) (auto split: sum.splits)

lemma sum_arg_add_all: "truthy F a \<Longrightarrow> sum_arg F t a = add_all F t (contributions F a)"
  by (induction F t a rule: sum_arg.induct)
     (auto simp: sum_rows_add_all split: sum.splits option.splits)

lemma sum_loop_add_all:
  "sum_loop F t args = add_all F t (concat (map (contributions F) (filter (truthy F) args)))"
  by (induction args arbitrary: t)
     (auto simp: add_all_append sum_arg_add_all split: sum.splits)

lemma sum_loop_filter: "sum_loop F t (filter (truthy F) args) = sum_loop F t args"
  by (induction args arbitrary: t) (auto split: sum.splits)

lemma sum_from_filter: "sum_from F n (filter (truthy F) xs) = sum_from F n xs"
  by (induction xs arbitrary: n) (auto split: sum.splits)

lemma sum_from_ints: "sum_from F (NInt k) (map PInt js) = Inr (NInt (k + sum_list js))"
  by (induction js arbitrary: k) (auto simp: add_value_def)

text \<open>
  Claim C5: \<^verbatim>\<open>sum_func\<close> is a running total, seeded with \<open>0.0\<close>, to which the contributions
  of the truthy arguments are added in order: of a list whose first element is a list, the
  sum of the truthy elements of each row; of any other list, the sum of its own truthy
  elements; of any other argument, the argument itself. Falsy arguments and falsy elements
  change nothing, and the sum of a row of integers is their sum. In particular, for the
  cell values 1, blank, 3 the result is \<open>0.0 + float(4)\<close>, which is the float 4 as soon as
  \<open>0.0 + 4.0 = 4.0\<close>.
\<close>

theorem sum_func_contributions:
  "sum_func F args =
     add_all F (f_zero F) (concat (map (contributions F) (filter (truthy F) args))) \<and>
   sum_func F (filter (truthy F) args) = sum_func F args \<and>
   sum_from F n (filter (truthy F) xs) = sum_from F n xs \<and>
   sum_from F (NInt 0) (map PInt js) = Inr (NInt (sum_list js)) \<and>
   (f_of_int F 4 = Some four \<and> f_add F (f_zero F) four = four \<longrightarrow>
      sum_func F [PList [PInt 1, PNone, PInt 3]] = Inr four)"
  by (simp add: sum_func_def sum_loop_add_all [symmetric] sum_loop_filter sum_from_filter
      sum_from_ints add_value_def add_to_def)

theorem sum_func_contributions_witness:
  "sum_func exact_arith [PList [PInt 1, PNone, PInt 3]] = Inr 4 \<and>
   sum_func exact_arith [PInt 1, PNone, PInt 3] = Inr 4 \<and>
   sum_func exact_arith [PList [PList [PInt 1, PStr ''''], PList [PNone, PInt 3]], PBool False]
     = Inr 4"
proof -
  have h: "f_of_int exact_arith 4 = Some 4 \<and> f_add exact_arith (f_zero exact_arith) 4 = 4"
    by (simp add: exact_arith_def)
  have 1: "sum_func exact_arith [PList [PInt 1, PNone, PInt 3]] = Inr 4"
    using sum_func_contributions [of exact_arith _ _ _ _ 4] h by blast
  have 2: "sum_func exact_arith [PInt 1, PNone, PInt 3] = Inr 4"
    by (simp add: sum_func_def add_to_def exact_arith_def)
  have 3: "sum_func exact_arith
      [PList [PList [PInt 1, PStr ''''], PList [PNone, PInt 3]], PBool False] = Inr 4"
    by (simp add: sum_func_def add_to_def sum_truthy_def add_value_def exact_arith_def)
  show ?thesis using 1 2 3 by simp
qed

end
